theory Spec2Isabelle
  imports Complex_Main
begin

section \<open>Values of the backend (src/backend/server.js)\<close>

text \<open>
  The handlers of \<^verbatim>\<open>server.js\<close> work on parsed JSON: request bodies delivered by
  \<^verbatim>\<open>express.json()\<close>, the records of the \<^verbatim>\<open>patients\<close> array and the bodies passed to
  \<^verbatim>\<open>res.json\<close>. A value is one of the JavaScript values that can occur there. An object is
  a finite mapping from property names to values; it is modelled as a map, so that equality
  of two objects in HOL is deep equality of their properties (the order in which
  \<^verbatim>\<open>JSON.stringify\<close> prints the keys is not part of the model). A number is modelled by its
  mathematical value; rounding to binary64 is not modelled, so the model agrees with the
  code on the numbers that binary64 represents exactly.
\<close>

datatype jsval =
    Undefined
  | Null
  | Bool bool
  | Num rat
  | Str string
  | Arr "jsval list"
  | Obj "string \<Rightarrow> jsval option"

type_synonym obj = "string \<Rightarrow> jsval option"

text \<open>An object literal with the given properties, as \<^verbatim>\<open>{ k1: v1, k2: v2 }\<close>.\<close>

definition literal :: "(string \<times> jsval) list \<Rightarrow> obj" where
  "literal kvs = map_of kvs"

subsection \<open>Number to string, for array indices and path segments\<close>

text \<open>
  \<^verbatim>\<open>Number.prototype.toString\<close> on a non-negative integer (below \<open>10^21\<close>, where
  JavaScript switches to exponent notation): its decimal digits. It names the index
  properties of an array and builds the path of \<^verbatim>\<open>`/patients/${patientId}`\<close> in
  \<^verbatim>\<open>frontend/src/services/api.js\<close>.
\<close>

definition digit_char :: "nat \<Rightarrow> char" where
  "digit_char d = ''0123456789'' ! d"

fun toString :: "nat \<Rightarrow> string" where
  "toString n = (if n < 10 then [digit_char n] else toString (n div 10) @ [digit_char (n mod 10)])"

declare toString.simps [simp del]

subsection \<open>Object spread\<close>

text \<open>
  \<^verbatim>\<open>...v\<close> inside an object literal copies the own enumerable properties of \<open>v\<close>:
  the properties of an object, the index properties of an array or of a string, and
  nothing for \<^verbatim>\<open>undefined\<close>, \<^verbatim>\<open>null\<close>, a boolean or a number.
\<close>

fun spread :: "jsval \<Rightarrow> obj" where
  "spread (Obj m) = m"
| "spread (Arr xs) = map_of (zip (map toString [0..<length xs]) xs)"
| "spread (Str s) = map_of (zip (map toString [0..<length s]) (map (\<lambda>c. Str [c]) s))"
| "spread _ = Map.empty"

subsection \<open>parseInt\<close>

text \<open>
  \<^verbatim>\<open>parseInt(string)\<close> with no radix (ECMAScript 19.2.5): skip leading white space, read
  an optional sign, switch to radix 16 after a \<^verbatim>\<open>0x\<close> or \<^verbatim>\<open>0X\<close> prefix, read the longest run
  of digits of the radix and ignore the rest. No digit at all gives \<^verbatim>\<open>NaN\<close>, which is
  \<open>None\<close> here. Characters are code units below 256. The digits are read as the exact
  integer, which is what JavaScript returns for values below \<open>2^53\<close>; above, JavaScript
  rounds to binary64.
\<close>

definition is_ws :: "char \<Rightarrow> bool" where
  "is_ws c = (of_char c \<in> {9, 10, 11, 12, 13, 32, 160 :: nat})"

definition digit_val :: "char \<Rightarrow> nat option" where
  "digit_val c =
     (let n = (of_char c :: nat) in
      if 48 \<le> n \<and> n \<le> 57 then Some (n - 48)
      else if 97 \<le> n \<and> n \<le> 122 then Some (n - 87)
      else if 65 \<le> n \<and> n \<le> 90 then Some (n - 55)
      else None)"

definition radix_digit :: "nat \<Rightarrow> char \<Rightarrow> bool" where
  "radix_digit R c = (case digit_val c of Some d \<Rightarrow> d < R | None \<Rightarrow> False)"

definition math_int :: "nat \<Rightarrow> string \<Rightarrow> nat" where
  "math_int R Z = foldl (\<lambda>a c. a * R + the (digit_val c)) 0 Z"

definition parseInt :: "string \<Rightarrow> int option" where
  "parseInt s =
     (let S = dropWhile is_ws s;
          sign = (if S \<noteq> [] \<and> hd S = CHR ''-'' then - 1 else 1 :: int);
          S1 = (if S \<noteq> [] \<and> (hd S = CHR ''+'' \<or> hd S = CHR ''-'') then tl S else S);
          hex = (take 2 S1 = ''0x'' \<or> take 2 S1 = ''0X'');
          R = (if hex then 16 else 10);
          S2 = (if hex then drop 2 S1 else S1);
          Z = takeWhile (radix_digit R) S2
      in if Z = [] then None else Some (sign * int (math_int R Z)))"

text \<open>
  \<^verbatim>\<open>p.id === n\<close> for the number \<open>n\<close> that \<^verbatim>\<open>parseInt\<close> returned: strict equality holds
  only when the property is a number with the same value, and never for \<^verbatim>\<open>NaN\<close>.
\<close>

definition id_is :: "int option \<Rightarrow> obj \<Rightarrow> bool" where
  "id_is n p =
     (case n of
        None \<Rightarrow> False
      | Some i \<Rightarrow> (case p ''id'' of Some (Num r) \<Rightarrow> r = of_int i | _ \<Rightarrow> False))"

subsection \<open>Array.prototype.findIndex\<close>

text \<open>The index of the first element that satisfies the predicate, or \<open>-1\<close>.\<close>

fun findIndex :: "('a \<Rightarrow> bool) \<Rightarrow> 'a list \<Rightarrow> int" where
  "findIndex P [] = - 1"
| "findIndex P (x # xs) =
     (if P x then 0 else (let r = findIndex P xs in if r = - 1 then - 1 else r + 1))"

section \<open>Handlers\<close>

text \<open>
  A handler either sends a response, with a status and a JSON body (\<^verbatim>\<open>res.json\<close> sends
  status 200 unless \<^verbatim>\<open>res.status\<close> was called), or throws before it sends one.
\<close>

datatype outcome = Responded nat jsval | Threw

subsection \<open>Feature stubs\<close>

text \<open>
  \<^verbatim>\<open>const { note_type } = req.body\<close>: destructuring \<^verbatim>\<open>undefined\<close> or \<^verbatim>\<open>null\<close> throws a
  TypeError (\<open>None\<close> here); any other value is read as an object, and a property it
  does not have is \<^verbatim>\<open>undefined\<close>.
\<close>

fun note_type_of :: "jsval \<Rightarrow> jsval option" where
  "note_type_of Undefined = None"
| "note_type_of Null = None"
| "note_type_of v = Some (case spread v ''note_type'' of None \<Rightarrow> Undefined | Some w \<Rightarrow> w)"

definition image_enhancement :: "jsval \<Rightarrow> outcome" where
  "image_enhancement body =
     Responded 200 (Obj (literal
       [(''success'', Bool True),
        (''enhanced_image'', Str ''BASE64_IMAGE_DATA_HERE''),
        (''message'', Str ''Image enhanced successfully (mock response).'')]))"

definition clinical_notes :: "jsval \<Rightarrow> outcome" where
  "clinical_notes body =
     (case note_type_of body of
        None \<Rightarrow> Threw
      | Some note_type \<Rightarrow>
          if note_type = Str ''soap'' then
            Responded 200 (Obj (literal
              [(''note'', Str ''SOAP note: Subjective, Objective, Assessment, Plan (mock)'')]))
          else if note_type = Str ''discharge'' then
            Responded 200 (Obj (literal
              [(''note'', Str ''Discharge Summary generated successfully (mock)'')]))
          else if note_type = Str ''radiology'' then
            Responded 200 (Obj (literal
              [(''note'', Str ''Radiology Report generated successfully (mock)'')]))
          else Responded 400 (Obj (literal [(''error'', Str ''Invalid note type'')])))"

definition icd10_coding :: "jsval \<Rightarrow> outcome" where
  "icd10_coding body =
     Responded 200 (Obj (literal
       [(''codes'', Arr
          [Obj (literal [(''code'', Str ''A00''), (''description'', Str ''Cholera'')]),
           Obj (literal [(''code'', Str ''B20''), (''description'', Str ''HIV disease'')])])]))"

subsection \<open>Patient management\<close>

text \<open>The \<^verbatim>\<open>patients\<close> array as the module initialises it.\<close>

definition john :: obj where
  "john = literal [(''id'', Num 1), (''name'', Str ''John Doe''), (''age'', Num 30),
                   (''diagnosis'', Str ''Fever'')]"

definition jane :: obj where
  "jane = literal [(''id'', Num 2), (''name'', Str ''Jane Doe''), (''age'', Num 28),
                   (''diagnosis'', Str ''Cough'')]"

definition patients :: "obj list" where
  "patients = [john, jane]"

definition not_found :: outcome where
  "not_found = Responded 404 (Obj (literal [(''error'', Str ''Patient not found'')]))"

text \<open>\<^verbatim>\<open>app.get("/patients")\<close>\<close>

definition get_patients :: "obj list \<Rightarrow> outcome" where
  "get_patients ps = Responded 200 (Arr (map Obj ps))"

text \<open>\<^verbatim>\<open>app.get("/patients/:id")\<close>; the first argument is \<^verbatim>\<open>req.params.id\<close>.\<close>

definition get_patient :: "string \<Rightarrow> obj list \<Rightarrow> outcome" where
  "get_patient param ps =
     (case List.find (id_is (parseInt param)) ps of
        None \<Rightarrow> not_found
      | Some patient \<Rightarrow> Responded 200 (Obj patient))"

text \<open>
  \<^verbatim>\<open>app.post("/patients")\<close>: the new record is the literal
  \<^verbatim>\<open>{ id: patients.length + 1, ...req.body }\<close>; the handler pushes it and answers with it.
\<close>

definition newPatient :: "jsval \<Rightarrow> obj list \<Rightarrow> obj" where
  "newPatient body ps = literal [(''id'', Num (of_nat (length ps + 1)))] ++ spread body"

definition post_patients :: "jsval \<Rightarrow> obj list \<Rightarrow> obj list \<times> outcome" where
  "post_patients body ps =
     (ps @ [newPatient body ps],
      Responded 200 (Obj (literal
        [(''message'', Str ''Patient added''), (''patient'', Obj (newPatient body ps))])))"

text \<open>
  \<^verbatim>\<open>app.put("/patients/:id")\<close>: the record at the index found is replaced by
  \<^verbatim>\<open>{ ...patients[index], ...req.body }\<close>.
\<close>

definition put_patient :: "string \<Rightarrow> jsval \<Rightarrow> obj list \<Rightarrow> obj list \<times> outcome" where
  "put_patient param body ps =
     (let id = parseInt param;
          index = findIndex (id_is id) ps
      in if index = - 1 then (ps, not_found)
         else
           (let ps' = ps[nat index := (ps ! nat index) ++ spread body]
            in (ps', Responded 200 (Obj (literal
                 [(''message'', Str ''Patient updated''), (''patient'', Obj (ps' ! nat index))])))))"

subsection \<open>Requests to the patient routes\<close>

text \<open>
  The four patient routes are the only code that reads or writes \<^verbatim>\<open>patients\<close>. A run of
  the server is the sequence of the requests it handled, each to completion.
\<close>

datatype request =
    GetPatients
  | GetPatient string
  | PostPatients jsval
  | PutPatient string jsval

fun handle :: "request \<Rightarrow> obj list \<Rightarrow> obj list \<times> outcome" where
  "handle GetPatients ps = (ps, get_patients ps)"
| "handle (GetPatient param) ps = (ps, get_patient param ps)"
| "handle (PostPatients body) ps = post_patients body ps"
| "handle (PutPatient param body) ps = put_patient param body ps"

fun run :: "request list \<Rightarrow> obj list \<Rightarrow> obj list" where
  "run [] ps = ps"
| "run (r # rs) ps = run rs (fst (handle r ps))"

text \<open>Whether the body of a request has an \<^verbatim>\<open>id\<close> property of its own.\<close>

fun sends_id :: "request \<Rightarrow> bool" where
  "sends_id (PostPatients body) = (spread body ''id'' \<noteq> None)"
| "sends_id (PutPatient param body) = (spread body ''id'' \<noteq> None)"
| "sends_id _ = False"

text \<open>
  The spec's reading of a well-formed path identifier, "a positive integer": a non-empty
  string of decimal digits that does not denote zero.
\<close>

text \<open>
  The identifier scheme of the module: the record at position \<open>i\<close> (from 0) has the
  number \<open>i + 1\<close> as its \<^verbatim>\<open>id\<close>, as the two initial records have and as
  \<^verbatim>\<open>id: patients.length + 1\<close> continues.
\<close>

definition ids_by_position :: "obj list \<Rightarrow> bool" where
  "ids_by_position ps = (\<forall>i<length ps. (ps ! i) ''id'' = Some (Num (of_nat (i + 1))))"

definition is_dec_digit :: "char \<Rightarrow> bool" where
  "is_dec_digit c = (48 \<le> (of_char c :: nat) \<and> (of_char c :: nat) \<le> 57)"

definition positive_integer_text :: "string \<Rightarrow> bool" where
  "positive_integer_text s = (s \<noteq> [] \<and> list_all is_dec_digit s \<and> \<not> list_all (\<lambda>c. c = CHR ''0'') s)"

text \<open>
  The path segment that \<^verbatim>\<open>`/patients/${patientId}`\<close> (\<^verbatim>\<open>frontend/src/services/api.js\<close>, lines
  99 and 109) writes for the \<^verbatim>\<open>id\<close> of a record: the decimal numeral of an integer of
  magnitude below \<open>10^21\<close>, with a minus sign when negative. An \<^verbatim>\<open>id\<close> of any other kind
  has no numeral. An identifier, given as a path segment, is present in the store when it
  is the numeral of the \<^verbatim>\<open>id\<close> of some record.
\<close>

definition id_numeral :: "obj \<Rightarrow> string option" where
  "id_numeral p =
     (case p ''id'' of
        Some (Num r) \<Rightarrow>
          if r = of_int \<lfloor>r\<rfloor> \<and> \<bar>r\<bar> < 10 ^ 21
          then Some (if r < 0 then CHR ''-'' # toString (nat (- \<lfloor>r\<rfloor>)) else toString (nat \<lfloor>r\<rfloor>))
          else None
      | _ \<Rightarrow> None)"

definition present :: "string \<Rightarrow> obj list \<Rightarrow> bool" where
  "present s ps = list_ex (\<lambda>p. id_numeral p = Some s) ps"

section \<open>Facts about the library functions\<close>

lemmas ev = patients_def john_def jane_def literal_def id_is_def parseInt_def is_ws_def
  radix_digit_def digit_val_def math_int_def Let_def

lemma findIndex_ge: "- 1 \<le> findIndex P xs"
  by (induction xs) (auto simp: Let_def)

lemma findIndex_neg: "(findIndex P xs = - 1) = (\<forall>x\<in>set xs. \<not> P x)"
proof (induction xs)
  case Nil
  then show ?case by simp
next
  case (Cons x xs)
  have "findIndex P xs + 1 \<noteq> - 1" using findIndex_ge [of P xs] by arith
  with Cons show ?case by (auto simp: Let_def)
qed

lemma findIndex_found:
  "findIndex P xs \<noteq> - 1 \<Longrightarrow>
     0 \<le> findIndex P xs \<and> nat (findIndex P xs) < length xs \<and> P (xs ! nat (findIndex P xs))
     \<and> (\<forall>j < nat (findIndex P xs). \<not> P (xs ! j))"
proof (induction xs)
  case Nil
  then show ?case by simp
next
  case (Cons x xs)
  show ?case
  proof (cases "P x")
    case True
    then show ?thesis by simp
  next
    case False
    with Cons.prems have ne: "findIndex P xs \<noteq> - 1" by (auto simp: Let_def split: if_splits)
    from Cons.IH [OF ne] False ne show ?thesis
      by (auto simp: Let_def nat_add_distrib nth_Cons split: nat.splits)
  qed
qed

lemma find_findIndex:
  "List.find P xs = (if findIndex P xs = - 1 then None else Some (xs ! nat (findIndex P xs)))"
proof (induction xs)
  case Nil
  then show ?case by simp
next
  case (Cons x xs)
  have "0 \<le> findIndex P xs + 1" using findIndex_ge [of P xs] by arith
  with Cons show ?case using findIndex_ge [of P xs] by (auto simp: Let_def nat_add_distrib)
qed

lemma digit_val_digit_char: "d < 10 \<Longrightarrow> digit_val (digit_char d) = Some d"
proof -
  assume "d < 10"
  then have "d \<in> {0,1,2,3,4,5,6,7,8,9}" by auto
  then show ?thesis by (auto simp: digit_val_def digit_char_def)
qed

lemma digit_char_props: "d < 10 \<Longrightarrow> radix_digit 10 (digit_char d) \<and> \<not> is_ws (digit_char d)
   \<and> digit_char d \<noteq> CHR ''+'' \<and> digit_char d \<noteq> CHR ''-'' \<and> digit_char d \<noteq> CHR ''x'' \<and> digit_char d \<noteq> CHR ''X''"
proof -
  assume "d < 10"
  then have "d \<in> {0,1,2,3,4,5,6,7,8,9}" by auto
  then show ?thesis by (auto simp: radix_digit_def digit_val_def digit_char_def is_ws_def)
qed

lemma toString_digits: "c \<in> set (toString n) \<Longrightarrow> \<exists>d<10. c = digit_char d"
proof (induction n arbitrary: c rule: toString.induct)
  case (1 n)
  show ?case
  proof (cases "n < 10")
    case True
    with "1.prems" show ?thesis by (auto simp: toString.simps [of n])
  next
    case False
    with "1.prems" have "c \<in> set (toString (n div 10)) \<or> c = digit_char (n mod 10)"
      by (auto simp: toString.simps [of n])
    then show ?thesis
    proof
      assume "c \<in> set (toString (n div 10))"
      with "1.IH" [OF False] show ?thesis by blast
    next
      assume "c = digit_char (n mod 10)"
      moreover have "n mod 10 < 10" by simp
      ultimately show ?thesis by blast
    qed
  qed
qed

lemma toString_nonempty: "toString n \<noteq> []"
  by (subst toString.simps) simp

lemma math_int_toString: "math_int 10 (toString n) = n"
proof (induction n rule: toString.induct)
  case (1 n)
  show ?case
  proof (cases "n < 10")
    case True
    then show ?thesis by (simp add: toString.simps [of n] math_int_def digit_val_digit_char)
  next
    case False
    have "math_int 10 (toString n) = math_int 10 (toString (n div 10)) * 10 + n mod 10"
      using False by (simp add: toString.simps [of n] math_int_def digit_val_digit_char)
    with "1.IH" [OF False] show ?thesis by simp
  qed
qed

lemma parseInt_toString: "parseInt (toString n) = Some (int n)"
proof -
  let ?s = "toString n"
  have all: "\<forall>c\<in>set ?s. radix_digit 10 c \<and> \<not> is_ws c \<and> c \<noteq> CHR ''+'' \<and> c \<noteq> CHR ''-''
        \<and> c \<noteq> CHR ''x'' \<and> c \<noteq> CHR ''X''"
  proof
    fix c assume "c \<in> set ?s"
    then obtain d where "d < 10" "c = digit_char d" using toString_digits by blast
    then show "radix_digit 10 c \<and> \<not> is_ws c \<and> c \<noteq> CHR ''+'' \<and> c \<noteq> CHR ''-''
        \<and> c \<noteq> CHR ''x'' \<and> c \<noteq> CHR ''X''"
      using digit_char_props [of d] by simp
  qed
  have ne: "?s \<noteq> []" by (rule toString_nonempty)
  then have hd_in: "hd ?s \<in> set ?s" by simp
  have ws: "dropWhile is_ws ?s = ?s"
    using ne hd_in all by (cases ?s) auto
  have nohex: "take 2 ?s \<noteq> ''0x'' \<and> take 2 ?s \<noteq> ''0X''"
  proof -
    { fix c assume "take 2 ?s = [CHR ''0'', c]"
      then have "c \<in> set (take 2 ?s)" by simp
      then have "c \<in> set ?s" by (rule in_set_takeD)
      with all have "c \<noteq> CHR ''x'' \<and> c \<noteq> CHR ''X''" by blast }
    then show ?thesis by blast
  qed
  have tw: "takeWhile (radix_digit 10) ?s = ?s"
    using all by simp
  have sign: "hd ?s \<noteq> CHR ''+'' \<and> hd ?s \<noteq> CHR ''-''"
    using hd_in all by blast
  show ?thesis
    using nohex ne sign by (simp add: parseInt_def Let_def ws tw math_int_toString)
qed

lemma find_snoc: "\<forall>x\<in>set xs. \<not> P x \<Longrightarrow> P y \<Longrightarrow> List.find P (xs @ [y]) = Some y"
  by (induction xs) auto

lemma id_is_same_id: "p ''id'' = q ''id'' \<Longrightarrow> id_is n p = id_is n q"
  by (simp add: id_is_def split: option.splits)

lemma radix_digit_10: "radix_digit 10 c = is_dec_digit c"
  by (auto simp: radix_digit_def digit_val_def is_dec_digit_def Let_def)

lemma parseInt_no_digit: "\<forall>c\<in>set s. \<not> is_dec_digit c \<Longrightarrow> parseInt s = None"
proof -
  assume nd: "\<forall>c\<in>set s. \<not> is_dec_digit c"
  define S where "S = dropWhile is_ws s"
  define S1 where "S1 = (if S \<noteq> [] \<and> (hd S = CHR ''+'' \<or> hd S = CHR ''-'') then tl S else S)"
  have "set S \<subseteq> set s" unfolding S_def by (rule set_dropWhileD [THEN subsetI])
  moreover have "set S1 \<subseteq> set S" unfolding S1_def using list.set_sel(2) [of S] by auto
  ultimately have sub: "\<forall>c\<in>set S1. \<not> is_dec_digit c" using nd by blast
  have zero: "is_dec_digit CHR ''0''" by (simp add: is_dec_digit_def)
  have nohex: "take 2 S1 \<noteq> ''0x'' \<and> take 2 S1 \<noteq> ''0X''"
  proof -
    { fix c assume t: "take 2 S1 = [CHR ''0'', c]"
      then have "CHR ''0'' \<in> set (take 2 S1)" by simp
      then have "CHR ''0'' \<in> set S1" by (rule in_set_takeD)
      with sub zero have False by blast }
    then show ?thesis by blast
  qed
  have tw: "takeWhile (radix_digit 10) S1 = []"
    using sub by (cases S1) (auto simp: radix_digit_10)
  show ?thesis
    using nohex tw unfolding parseInt_def Let_def S1_def S_def by simp
qed

lemma ids_by_position_initial: "ids_by_position patients"
  by (simp add: ids_by_position_def patients_def john_def jane_def literal_def less_Suc_eq
      numeral_2_eq_2)

lemma ids_by_position_handle:
  assumes "\<not> sends_id r" "ids_by_position ps"
  shows "ids_by_position (fst (handle r ps))"
proof (cases r)
  case GetPatients
  with assms show ?thesis by simp
next
  case (GetPatient param)
  with assms show ?thesis by simp
next
  case (PostPatients body)
  with assms have noid: "spread body ''id'' = None" by simp
  have new: "newPatient body ps ''id'' = Some (Num (of_nat (length ps + 1)))"
    using noid by (simp add: newPatient_def literal_def map_add_def)
  show ?thesis
    using assms(2) new PostPatients
    by (auto simp: ids_by_position_def post_patients_def nth_append less_Suc_eq)
next
  case (PutPatient param body)
  with assms have noid: "spread body ''id'' = None" by simp
  have keep: "\<And>p. (p ++ spread body) ''id'' = p ''id''"
    using noid by (simp add: map_add_def)
  show ?thesis
  proof (cases "findIndex (id_is (parseInt param)) ps = - 1")
    case True
    with assms(2) PutPatient show ?thesis by (simp add: put_patient_def)
  next
    case False
    from findIndex_found [OF False] have "nat (findIndex (id_is (parseInt param)) ps) < length ps"
      by simp
    with assms(2) PutPatient keep False show ?thesis
      by (auto simp: ids_by_position_def put_patient_def Let_def nth_list_update)
  qed
qed

lemma ids_by_position_run:
  "\<not> list_ex sends_id rs \<Longrightarrow> ids_by_position ps \<Longrightarrow> ids_by_position (run rs ps)"
  by (induction rs arbitrary: ps) (auto simp: ids_by_position_handle)

lemma ids_by_position_below:
  assumes "ids_by_position ps" "p \<in> set ps"
  shows "\<exists>r. p ''id'' = Some (Num r) \<and> r < of_nat (length ps + 1) \<and> r \<le> of_nat (length ps)"
proof -
  from assms(2) obtain i where i: "i < length ps" "p = ps ! i" by (auto simp: in_set_conv_nth)
  with assms(1) have "p ''id'' = Some (Num (of_nat (i + 1)))" by (simp add: ids_by_position_def)
  moreover have "(of_nat (i + 1) :: rat) \<le> of_nat (length ps)"
    using i(1) by (metis Suc_eq_plus1 Suc_leI of_nat_le_iff)
  moreover have "(of_nat (length ps) :: rat) < of_nat (length ps + 1)" by simp
  ultimately show ?thesis by force
qed

lemma fresh_after_run:
  assumes "\<not> list_ex sends_id rs" "p \<in> set (run rs patients)"
  shows "\<not> id_is (Some (int (length (run rs patients) + 1))) p"
proof -
  have "ids_by_position (run rs patients)"
    using assms(1) ids_by_position_initial by (rule ids_by_position_run)
  from ids_by_position_below [OF this assms(2)]
  obtain r where r: "p ''id'' = Some (Num r)" "r \<le> of_nat (length (run rs patients))"
    by blast
  have "r \<noteq> of_int (int (length (run rs patients) + 1))"
    using r(2) by simp
  with r(1) show ?thesis by (simp add: id_is_def)
qed

section \<open>The patient routes\<close>

subsection \<open>Updating a record\<close>

text \<open>
  Claim C1, as amended. When the path names a record of the store, the record at the index
  found holds, after \<^verbatim>\<open>PUT /patients/:id\<close>, the \<^verbatim>\<open>id\<close> of the request body if the body has
  an \<^verbatim>\<open>id\<close> property of its own, and its old \<^verbatim>\<open>id\<close> otherwise; in the latter case it still
  matches the identifier of the path.
\<close>

theorem put_patient_id:
  "\<exists>p\<in>set ps. id_is (parseInt param) p \<Longrightarrow> i = nat (findIndex (id_is (parseInt param)) ps) \<Longrightarrow>
     (fst (put_patient param body ps) ! i) ''id'' =
        (case spread body ''id'' of None \<Rightarrow> (ps ! i) ''id'' | Some v \<Rightarrow> Some v)
     \<and> (spread body ''id'' = None \<longrightarrow> id_is (parseInt param) (fst (put_patient param body ps) ! i))"
proof -
  assume ex: "\<exists>p\<in>set ps. id_is (parseInt param) p"
    and i: "i = nat (findIndex (id_is (parseInt param)) ps)"
  from ex have ne: "findIndex (id_is (parseInt param)) ps \<noteq> - 1"
    by (simp add: findIndex_neg)
  from findIndex_found [OF ne] i have len: "i < length ps" and P: "id_is (parseInt param) (ps ! i)"
    by simp_all
  have upd: "fst (put_patient param body ps) ! i = (ps ! i) ++ spread body"
    using ne len i by (simp add: put_patient_def Let_def)
  have id: "((ps ! i) ++ spread body) ''id'' =
        (case spread body ''id'' of None \<Rightarrow> (ps ! i) ''id'' | Some v \<Rightarrow> Some v)"
    by (simp add: map_add_def)
  have "spread body ''id'' = None \<Longrightarrow> id_is (parseInt param) ((ps ! i) ++ spread body)"
    using P id_is_same_id [of "(ps ! i) ++ spread body" "ps ! i"] by (simp add: map_add_def)
  with upd id show ?thesis by simp
qed

text \<open>
  The theorem at \<^verbatim>\<open>PUT /patients/2 {age: 29}\<close> on the initial store: the second record keeps
  \<^verbatim>\<open>id: 2\<close> and takes the new age.
\<close>

theorem put_patient_id_witness:
  "(\<exists>p\<in>set patients. id_is (parseInt ''2'') p)
   \<and> (fst (put_patient ''2'' (Obj (literal [(''age'', Num 29)])) patients) ! 1) ''id'' = Some (Num 2)
   \<and> (fst (put_patient ''2'' (Obj (literal [(''age'', Num 29)])) patients) ! 1) ''age'' = Some (Num 29)"
proof -
  have h: "\<exists>p\<in>set patients. id_is (parseInt ''2'') p" by (simp add: ev)
  have i: "(1::nat) = nat (findIndex (id_is (parseInt ''2'')) patients)" by (simp add: ev)
  have age: "(fst (put_patient ''2'' (Obj (literal [(''age'', Num 29)])) patients) ! 1) ''age'' = Some (Num 29)"
    by (simp add: put_patient_def ev)
  from put_patient_id [OF h i, of "Obj (literal [(''age'', Num 29)])"] h age
  show ?thesis by (simp add: ev)
qed

text \<open>
  Claim C1 as stated fails: \<^verbatim>\<open>PUT /patients/1 {id: 99}\<close> on the initial store finds the
  record with identifier 1 and leaves it with identifier 99.
\<close>

theorem put_patient_id_counterexample:
  "id_is (parseInt ''1'') (patients ! 0)
   \<and> fst (put_patient ''1'' (Obj (literal [(''id'', Num 99)])) patients) ! 0
       = literal [(''id'', Num 99), (''name'', Str ''John Doe''), (''age'', Num 30), (''diagnosis'', Str ''Fever'')]
   \<and> \<not> id_is (parseInt ''1'') (fst (put_patient ''1'' (Obj (literal [(''id'', Num 99)])) patients) ! 0)"
  by (simp add: put_patient_def ev fun_eq_iff map_add_def)


text \<open>
  Claim C3. When the path names a record of the store, \<^verbatim>\<open>PUT /patients/:id\<close> replaces the
  first such record by the merge of the body over it and answers 200 with
  \<^verbatim>\<open>{message, patient}\<close>, the patient being the merged record: every key of the body has the
  body's value, and every other key has the value it had.
\<close>

theorem put_patient_merge:
  "\<exists>p\<in>set ps. id_is (parseInt param) p \<Longrightarrow> i = nat (findIndex (id_is (parseInt param)) ps) \<Longrightarrow>
   merged = (ps ! i) ++ spread body \<Longrightarrow>
     put_patient param body ps =
       (ps[i := merged],
        Responded 200 (Obj (literal [(''message'', Str ''Patient updated''), (''patient'', Obj merged)])))
     \<and> i < length ps \<and> id_is (parseInt param) (ps ! i)
     \<and> (\<forall>k. merged k = (case spread body k of None \<Rightarrow> (ps ! i) k | Some v \<Rightarrow> Some v))"
proof -
  assume ex: "\<exists>p\<in>set ps. id_is (parseInt param) p"
    and i: "i = nat (findIndex (id_is (parseInt param)) ps)"
    and m: "merged = (ps ! i) ++ spread body"
  from ex have ne: "findIndex (id_is (parseInt param)) ps \<noteq> - 1"
    by (simp add: findIndex_neg)
  from findIndex_found [OF ne] i have len: "i < length ps" and P: "id_is (parseInt param) (ps ! i)"
    by simp_all
  have "put_patient param body ps =
       (ps[i := merged],
        Responded 200 (Obj (literal [(''message'', Str ''Patient updated''), (''patient'', Obj merged)])))"
    using ne len i m by (simp add: put_patient_def Let_def)
  moreover have "\<forall>k. merged k = (case spread body k of None \<Rightarrow> (ps ! i) k | Some v \<Rightarrow> Some v)"
    by (simp add: m map_add_def)
  ultimately show ?thesis using len P by simp
qed

text \<open>
  The theorem at \<^verbatim>\<open>PUT /patients/2 {age: 29}\<close> on the initial store: the age is replaced, the
  name stays.
\<close>

theorem put_patient_merge_witness:
  "(\<exists>p\<in>set patients. id_is (parseInt ''2'') p)
   \<and> put_patient ''2'' (Obj (literal [(''age'', Num 29)])) patients =
       ([john, jane ++ literal [(''age'', Num 29)]],
        Responded 200 (Obj (literal [(''message'', Str ''Patient updated''),
                                     (''patient'', Obj (jane ++ literal [(''age'', Num 29)]))])))
   \<and> (jane ++ literal [(''age'', Num 29)]) ''age'' = Some (Num 29)
   \<and> (jane ++ literal [(''age'', Num 29)]) ''name'' = Some (Str ''Jane Doe'')"
proof -
  have h: "\<exists>p\<in>set patients. id_is (parseInt ''2'') p" by (simp add: ev)
  have i: "(1::nat) = nat (findIndex (id_is (parseInt ''2'')) patients)" by (simp add: ev)
  have m: "jane ++ literal [(''age'', Num 29)] = (patients ! 1) ++ spread (Obj (literal [(''age'', Num 29)]))"
    by (simp add: patients_def)
  have l: "patients[1 := jane ++ literal [(''age'', Num 29)]] = [john, jane ++ literal [(''age'', Num 29)]]"
    by (simp add: patients_def)
  from put_patient_merge [OF h i m] h l show ?thesis
    by (simp add: jane_def literal_def)
qed

subsection \<open>Identifiers that no record has\<close>

text \<open>
  When no record matches the number that \<^verbatim>\<open>parseInt\<close> reads from the path segment, or it
  reads none, both handlers take their not-found branch.
\<close>

lemma no_match_not_found:
  assumes "\<forall>p\<in>set ps. \<not> id_is (parseInt param) p"
  shows "get_patient param ps = Responded 404 (Obj (literal [(''error'', Str ''Patient not found'')]))
     \<and> put_patient param body ps =
         (ps, Responded 404 (Obj (literal [(''error'', Str ''Patient not found'')])))"
proof -
  from assms have "List.find (id_is (parseInt param)) ps = None" by (simp add: find_None_iff)
  moreover from assms have "findIndex (id_is (parseInt param)) ps = - 1"
    by (simp add: findIndex_neg)
  ultimately show ?thesis by (simp add: get_patient_def put_patient_def not_found_def)
qed

lemma id_is_numeral:
  assumes "n < 2 ^ 53" "id_is (Some (int n)) p"
  shows "id_numeral p = Some (toString n)"
proof -
  from assms(2) have id: "p ''id'' = Some (Num (of_nat n))"
    by (auto simp: id_is_def split: option.splits jsval.splits)
  have "(2::nat) ^ 53 < 10 ^ 21" by simp
  with assms(1) have "n < 10 ^ 21" by simp
  then have "(of_nat n :: rat) < of_nat (10 ^ 21)" by (simp only: of_nat_less_iff)
  then have small: "\<bar>of_nat n :: rat\<bar> < 10 ^ 21" by simp
  have fl: "\<lfloor>of_nat n :: rat\<rfloor> = int n" by simp
  show ?thesis
    unfolding id_numeral_def id using small by (simp add: fl)
qed

text \<open>
  Claim C4, as amended. When the path segment is the decimal numeral of a natural number
  below \<open>2^53\<close> and is not present in the store, or when it has no decimal digit at all,
  \<^verbatim>\<open>GET /patients/:id\<close> and \<^verbatim>\<open>PUT /patients/:id\<close> both answer 404 with
  \<^verbatim>\<open>{error: "Patient not found"}\<close>, and the update leaves the store as it was.
\<close>

theorem absent_id_not_found:
  "(n < 2 ^ 53 \<and> \<not> present (toString n) ps \<longrightarrow>
      get_patient (toString n) ps
        = Responded 404 (Obj (literal [(''error'', Str ''Patient not found'')]))
      \<and> put_patient (toString n) body ps
        = (ps, Responded 404 (Obj (literal [(''error'', Str ''Patient not found'')]))))
   \<and> ((\<forall>c\<in>set param. \<not> is_dec_digit c) \<longrightarrow>
      get_patient param ps
        = Responded 404 (Obj (literal [(''error'', Str ''Patient not found'')]))
      \<and> put_patient param body ps
        = (ps, Responded 404 (Obj (literal [(''error'', Str ''Patient not found'')]))))"
proof (intro conjI impI)
  assume a: "n < 2 ^ 53 \<and> \<not> present (toString n) ps"
  have none: "\<forall>p\<in>set ps. \<not> id_is (parseInt (toString n)) p"
  proof
    fix p assume p: "p \<in> set ps"
    show "\<not> id_is (parseInt (toString n)) p"
    proof
      assume "id_is (parseInt (toString n)) p"
      then have "id_is (Some (int n)) p" by (simp add: parseInt_toString)
      with a have "id_numeral p = Some (toString n)" by (simp add: id_is_numeral)
      with p have "present (toString n) ps" by (auto simp: present_def list_ex_iff)
      with a show False by simp
    qed
  qed
  from no_match_not_found [OF none]
  show "get_patient (toString n) ps
        = Responded 404 (Obj (literal [(''error'', Str ''Patient not found'')]))"
    and "put_patient (toString n) body ps
        = (ps, Responded 404 (Obj (literal [(''error'', Str ''Patient not found'')])))"
    by simp_all
next
  assume "\<forall>c\<in>set param. \<not> is_dec_digit c"
  then have "parseInt param = None" by (rule parseInt_no_digit)
  then have none: "\<forall>p\<in>set ps. \<not> id_is (parseInt param) p" by (simp add: id_is_def)
  from no_match_not_found [OF none]
  show "get_patient param ps
        = Responded 404 (Obj (literal [(''error'', Str ''Patient not found'')]))"
    and "put_patient param body ps
        = (ps, Responded 404 (Obj (literal [(''error'', Str ''Patient not found'')])))"
    by simp_all
qed

text \<open>
  The theorem at the paths \<^verbatim>\<open>/patients/99\<close> and \<^verbatim>\<open>/patients/abc\<close> on the initial store.
\<close>

theorem absent_id_not_found_witness:
  "(99::nat) < 2 ^ 53 \<and> toString 99 = ''99'' \<and> \<not> present ''99'' patients
   \<and> \<not> is_dec_digit CHR ''a'' \<and> \<not> is_dec_digit CHR ''b'' \<and> \<not> is_dec_digit CHR ''c''
   \<and> get_patient ''99'' patients = Responded 404 (Obj (literal [(''error'', Str ''Patient not found'')]))
   \<and> put_patient ''99'' (Obj (literal [(''age'', Num 29)])) patients =
         (patients, Responded 404 (Obj (literal [(''error'', Str ''Patient not found'')])))
   \<and> get_patient ''abc'' patients = Responded 404 (Obj (literal [(''error'', Str ''Patient not found'')]))
   \<and> put_patient ''abc'' (Obj (literal [(''age'', Num 29)])) patients =
         (patients, Responded 404 (Obj (literal [(''error'', Str ''Patient not found'')])))"
proof -
  have r: "(99::nat) < 2 ^ 53" by simp
  have t: "toString 99 = ''99''" by (simp add: toString.simps digit_char_def)
  have t1: "toString (Suc 0) = ''1''" and t2: "toString 2 = ''2''"
    by (simp_all add: toString.simps digit_char_def)
  have np: "\<not> present ''99'' patients"
    by (simp add: present_def id_numeral_def patients_def john_def jane_def literal_def t1 t2)
  have d: "\<not> is_dec_digit CHR ''a'' \<and> \<not> is_dec_digit CHR ''b'' \<and> \<not> is_dec_digit CHR ''c''"
    by (simp add: is_dec_digit_def)
  then have all: "\<forall>c\<in>set ''abc''. \<not> is_dec_digit c" by simp
  from absent_id_not_found [of 99 patients "Obj (literal [(''age'', Num 29)])" "''abc''"]
    r np all
  have "get_patient ''99'' patients = Responded 404 (Obj (literal [(''error'', Str ''Patient not found'')]))
   \<and> put_patient ''99'' (Obj (literal [(''age'', Num 29)])) patients =
         (patients, Responded 404 (Obj (literal [(''error'', Str ''Patient not found'')])))
   \<and> get_patient ''abc'' patients = Responded 404 (Obj (literal [(''error'', Str ''Patient not found'')]))
   \<and> put_patient ''abc'' (Obj (literal [(''age'', Num 29)])) patients =
         (patients, Responded 404 (Obj (literal [(''error'', Str ''Patient not found'')])))"
    unfolding t by blast
  with r t np d show ?thesis by blast
qed

text \<open>
  Claim C4 as stated fails: the identifier \<^verbatim>\<open>2xyz\<close> is not present in the initial store,
  whose records have the numerals \<^verbatim>\<open>1\<close> and \<^verbatim>\<open>2\<close>. Yet \<^verbatim>\<open>GET /patients/2xyz\<close> answers 200
  with the record of Jane Doe, and \<^verbatim>\<open>PUT /patients/2xyz {age: 29}\<close> answers 200 and
  changes her age in the store, since \<^verbatim>\<open>parseInt\<close> reads the leading \<^verbatim>\<open>2\<close>.
\<close>

theorem absent_id_not_found_counterexample:
  "\<not> present ''2xyz'' patients
   \<and> map id_numeral patients = [Some ''1'', Some ''2'']
   \<and> get_patient ''2xyz'' patients = Responded 200 (Obj jane)
   \<and> put_patient ''2xyz'' (Obj (literal [(''age'', Num 29)])) patients =
       ([john, jane ++ literal [(''age'', Num 29)]],
        Responded 200 (Obj (literal [(''message'', Str ''Patient updated''),
                                     (''patient'', Obj (jane ++ literal [(''age'', Num 29)]))])))
   \<and> (patients ! 1) ''age'' = Some (Num 28)
   \<and> (jane ++ literal [(''age'', Num 29)]) ''age'' = Some (Num 29)"
proof -
  have t1: "toString (Suc 0) = ''1''" and t2: "toString 2 = ''2''"
    by (simp_all add: toString.simps digit_char_def)
  have nums: "map id_numeral patients = [Some ''1'', Some ''2'']"
    by (simp add: id_numeral_def patients_def john_def jane_def literal_def t1 t2)
  have np: "\<not> present ''2xyz'' patients"
    by (simp add: present_def id_numeral_def patients_def john_def jane_def literal_def t1 t2)
  have g: "get_patient ''2xyz'' patients = Responded 200 (Obj jane)"
    by (simp add: get_patient_def ev)
  have i: "findIndex (id_is (parseInt ''2xyz'')) patients = 1" by (simp add: ev)
  have u: "put_patient ''2xyz'' (Obj (literal [(''age'', Num 29)])) patients =
       ([john, jane ++ literal [(''age'', Num 29)]],
        Responded 200 (Obj (literal [(''message'', Str ''Patient updated''),
                                     (''patient'', Obj (jane ++ literal [(''age'', Num 29)]))])))"
    unfolding put_patient_def Let_def i by (simp add: patients_def)
  have a: "(patients ! 1) ''age'' = Some (Num 28)"
    by (simp add: patients_def jane_def literal_def)
  have b: "(jane ++ literal [(''age'', Num 29)]) ''age'' = Some (Num 29)"
    by (simp add: literal_def)
  show ?thesis by (intro conjI) (rule np, rule nums, rule g, rule u, rule a, rule b)
qed

subsection \<open>Reading a record\<close>

text \<open>
  Claim C6, as amended. \<^verbatim>\<open>GET /patients/:id\<close> never throws: for every path segment it answers
  with the not-found response or with a record of the store whose \<^verbatim>\<open>id\<close> is the number that
  \<^verbatim>\<open>parseInt\<close> reads from the segment. A segment from which \<^verbatim>\<open>parseInt\<close> reads no number, in
  particular every segment without a decimal digit, yields not-found.
\<close>

theorem get_patient_total:
  "(get_patient param ps = not_found
      \<or> (\<exists>p\<in>set ps. id_is (parseInt param) p \<and> get_patient param ps = Responded 200 (Obj p)))
   \<and> get_patient param ps \<noteq> Threw
   \<and> (parseInt param = None \<longrightarrow> get_patient param ps = not_found)
   \<and> ((\<forall>c\<in>set param. \<not> is_dec_digit c) \<longrightarrow> get_patient param ps = not_found)"
proof -
  have a: "get_patient param ps = not_found
      \<or> (\<exists>p\<in>set ps. id_is (parseInt param) p \<and> get_patient param ps = Responded 200 (Obj p))"
  proof (cases "List.find (id_is (parseInt param)) ps")
    case None
    then show ?thesis by (simp add: get_patient_def)
  next
    case (Some p)
    then obtain i where "i < length ps" "id_is (parseInt param) (ps ! i)" "p = ps ! i"
      unfolding find_Some_iff by blast
    then have "p \<in> set ps" "id_is (parseInt param) p" by simp_all
    moreover from Some have "get_patient param ps = Responded 200 (Obj p)"
      by (simp add: get_patient_def)
    ultimately show ?thesis by blast
  qed
  have b: "get_patient param ps \<noteq> Threw"
    by (simp add: get_patient_def not_found_def split: option.splits)
  have "List.find (id_is None) ps = None"
    by (simp add: find_None_iff id_is_def)
  then have c: "parseInt param = None \<longrightarrow> get_patient param ps = not_found"
    by (simp add: get_patient_def)
  have d: "(\<forall>c\<in>set param. \<not> is_dec_digit c) \<longrightarrow> get_patient param ps = not_found"
  proof
    assume "\<forall>c\<in>set param. \<not> is_dec_digit c"
    then have "parseInt param = None" by (rule parseInt_no_digit)
    with c show "get_patient param ps = not_found" by simp
  qed
  show ?thesis
    by (intro conjI) (rule a, rule b, rule c, rule d)
qed

text \<open>
  The theorem at the path \<^verbatim>\<open>/patients/abc\<close> on the initial store.
\<close>

theorem get_patient_total_witness:
  "parseInt ''abc'' = None
   \<and> \<not> is_dec_digit CHR ''a'' \<and> \<not> is_dec_digit CHR ''b'' \<and> \<not> is_dec_digit CHR ''c''
   \<and> get_patient ''abc'' patients = Responded 404 (Obj (literal [(''error'', Str ''Patient not found'')]))"
proof -
  have a: "parseInt ''abc'' = None" by (simp add: ev)
  have b: "\<forall>c\<in>set ''abc''. \<not> is_dec_digit c" by (simp add: is_dec_digit_def)
  have g: "get_patient ''abc'' patients = not_found"
    using get_patient_total [of "''abc''" patients] b by blast
  from a b g show ?thesis by (simp add: not_found_def)
qed

text \<open>
  Claim C6 as stated fails: the segment \<^verbatim>\<open>1abc\<close> is not a positive integer, not even a
  string of digits, and \<^verbatim>\<open>GET /patients/1abc\<close> on the initial store answers with the record
  of John Doe, since \<^verbatim>\<open>parseInt\<close> reads the leading \<^verbatim>\<open>1\<close> and ignores the rest.
\<close>

theorem get_patient_total_counterexample:
  "\<not> positive_integer_text ''1abc'' \<and> \<not> list_all is_dec_digit ''1abc''
   \<and> get_patient ''1abc'' patients = Responded 200 (Obj john)
   \<and> get_patient ''1abc'' patients \<noteq> not_found"
  by (simp add: get_patient_def positive_integer_text_def is_dec_digit_def not_found_def ev)

subsection \<open>Creating a record\<close>

text \<open>
  Claim C2, as amended. In a store reached from the initial one by requests whose bodies
  have no \<^verbatim>\<open>id\<close> property, \<^verbatim>\<open>POST /patients\<close> with such a body appends a record whose
  identifier is the number of records plus one, and every record already in the store
  has a smaller number as its identifier.
\<close>

theorem post_patients_id:
  "\<not> list_ex sends_id rs \<Longrightarrow> ps = run rs patients \<Longrightarrow> spread body ''id'' = None \<Longrightarrow>
     fst (post_patients body ps) = ps @ [newPatient body ps]
     \<and> newPatient body ps ''id'' = Some (Num (of_nat (length ps + 1)))
     \<and> (\<forall>p\<in>set ps. \<exists>r. p ''id'' = Some (Num r) \<and> r < of_nat (length ps + 1))"
proof -
  assume rs: "\<not> list_ex sends_id rs" and ps: "ps = run rs patients"
    and noid: "spread body ''id'' = None"
  have inv: "ids_by_position ps"
    unfolding ps using rs ids_by_position_initial by (rule ids_by_position_run)
  have "newPatient body ps ''id'' = Some (Num (of_nat (length ps + 1)))"
    using noid by (simp add: newPatient_def literal_def map_add_def)
  moreover have "\<forall>p\<in>set ps. \<exists>r. p ''id'' = Some (Num r) \<and> r < of_nat (length ps + 1)"
    using ids_by_position_below [OF inv] by blast
  ultimately show ?thesis by (simp add: post_patients_def)
qed

text \<open>
  The theorem after one earlier \<^verbatim>\<open>POST /patients {name: "Ann"}\<close>: the next record gets the
  identifier 4, and the three records of the store have smaller ones.
\<close>

theorem post_patients_id_witness:
  "\<not> list_ex sends_id [PostPatients (Obj (literal [(''name'', Str ''Ann'')]))]
   \<and> spread (Obj (literal [(''name'', Str ''Bob'')])) ''id'' = None
   \<and> newPatient (Obj (literal [(''name'', Str ''Bob'')]))
        (run [PostPatients (Obj (literal [(''name'', Str ''Ann'')]))] patients) ''id'' = Some (Num 4)
   \<and> map (\<lambda>p. p ''id'') (run [PostPatients (Obj (literal [(''name'', Str ''Ann'')]))] patients)
        = [Some (Num 1), Some (Num 2), Some (Num 3)]"
proof -
  have a: "\<not> list_ex sends_id [PostPatients (Obj (literal [(''name'', Str ''Ann'')]))]"
    by (simp add: literal_def)
  have b: "spread (Obj (literal [(''name'', Str ''Bob'')])) ''id'' = None"
    by (simp add: literal_def)
  have len: "length (run [PostPatients (Obj (literal [(''name'', Str ''Ann'')]))] patients) = 3"
    by (simp add: post_patients_def patients_def)
  have ids: "map (\<lambda>p. p ''id'') (run [PostPatients (Obj (literal [(''name'', Str ''Ann'')]))] patients)
        = [Some (Num 1), Some (Num 2), Some (Num 3)]"
    by (simp add: post_patients_def newPatient_def ev map_add_def)
  have new: "newPatient (Obj (literal [(''name'', Str ''Bob'')]))
        (run [PostPatients (Obj (literal [(''name'', Str ''Ann'')]))] patients) ''id'' = Some (Num 4)"
    using post_patients_id [OF a refl b] unfolding len by simp
  show ?thesis by (intro conjI) (rule a, rule b, rule new, rule ids)
qed

text \<open>
  Claim C2 as stated fails: \<^verbatim>\<open>POST /patients {id: 1}\<close> on the initial store appends a record
  with identifier 1, which is not the count plus one (3) and is the identifier of the
  first record. And after \<^verbatim>\<open>POST /patients {id: 10}\<close>, a body without \<^verbatim>\<open>id\<close> gets the
  identifier 4, below the 10 of the record before it.
\<close>

theorem post_patients_id_counterexample:
  "newPatient (Obj (literal [(''id'', Num 1)])) patients ''id'' = Some (Num 1)
   \<and> Num 1 \<noteq> Num (of_nat (length patients + 1))
   \<and> (patients ! 0) ''id'' = Some (Num 1)
   \<and> fst (post_patients (Obj (literal [(''id'', Num 1)])) patients)
        = patients @ [newPatient (Obj (literal [(''id'', Num 1)])) patients]
   \<and> (run [PostPatients (Obj (literal [(''id'', Num 10)]))] patients ! 2) ''id'' = Some (Num 10)
   \<and> newPatient (Obj (literal [(''name'', Str ''Ann'')]))
        (run [PostPatients (Obj (literal [(''id'', Num 10)]))] patients) ''id'' = Some (Num 4)"
  by (simp add: post_patients_def newPatient_def ev map_add_def)

text \<open>
  Claim C9. When the body of \<^verbatim>\<open>POST /patients\<close> has an \<^verbatim>\<open>id\<close> property of its own, the record
  appended and returned has the body's value as its \<^verbatim>\<open>id\<close>; and some body gives the initial
  store two records with the same \<^verbatim>\<open>id\<close>.
\<close>

theorem post_patients_body_id:
  "spread body ''id'' = Some v \<Longrightarrow>
     last (fst (post_patients body ps)) ''id'' = Some v
     \<and> snd (post_patients body ps) =
         Responded 200 (Obj (literal [(''message'', Str ''Patient added''),
                                      (''patient'', Obj (last (fst (post_patients body ps))))]))
     \<and> (\<exists>b. \<not> distinct (map (\<lambda>p. p ''id'') (fst (post_patients b patients))))"
proof -
  assume v: "spread body ''id'' = Some v"
  have "\<not> distinct (map (\<lambda>p. p ''id'') (fst (post_patients (Obj (literal [(''id'', Num 1)])) patients)))"
    by (simp add: post_patients_def newPatient_def patients_def john_def jane_def literal_def)
  then have "\<exists>b. \<not> distinct (map (\<lambda>p. p ''id'') (fst (post_patients b patients)))" ..
  with v show ?thesis
    by (simp add: post_patients_def newPatient_def map_add_def)
qed

text \<open>
  The theorem at \<^verbatim>\<open>POST /patients {id: 1, name: "Ann"}\<close> on the initial store, whose first
  record has the identifier 1 already.
\<close>

theorem post_patients_body_id_witness:
  "spread (Obj (literal [(''id'', Num 1), (''name'', Str ''Ann'')])) ''id'' = Some (Num 1)
   \<and> last (fst (post_patients (Obj (literal [(''id'', Num 1), (''name'', Str ''Ann'')])) patients)) ''id''
       = Some (Num 1)
   \<and> (patients ! 0) ''id'' = Some (Num 1)"
proof -
  have h: "spread (Obj (literal [(''id'', Num 1), (''name'', Str ''Ann'')])) ''id'' = Some (Num 1)"
    by (simp add: literal_def)
  from post_patients_body_id [OF h, of patients] h show ?thesis
    by (simp add: patients_def john_def literal_def)
qed

text \<open>
  Claim C5, as amended. When the body has no \<^verbatim>\<open>id\<close> property and no record of the store has
  the number of records plus one as its identifier, \<^verbatim>\<open>GET /patients/:id\<close> with the identifier
  of the record just created answers with exactly the record that \<^verbatim>\<open>POST /patients\<close>
  returned. By \<open>fresh_after_run\<close> the second condition holds in every store reached from
  the initial one by requests whose bodies have no \<^verbatim>\<open>id\<close> property.
\<close>

theorem get_after_post:
  "spread body ''id'' = None \<Longrightarrow> \<forall>p\<in>set ps. \<not> id_is (Some (int (length ps + 1))) p \<Longrightarrow>
     get_patient (toString (length ps + 1)) (fst (post_patients body ps))
       = Responded 200 (Obj (newPatient body ps))
     \<and> snd (post_patients body ps)
       = Responded 200 (Obj (literal [(''message'', Str ''Patient added''),
                                      (''patient'', Obj (newPatient body ps))]))"
proof -
  assume noid: "spread body ''id'' = None"
    and fresh: "\<forall>p\<in>set ps. \<not> id_is (Some (int (length ps + 1))) p"
  have "newPatient body ps ''id'' = Some (Num (of_nat (length ps + 1)))"
    using noid by (simp add: newPatient_def literal_def map_add_def)
  then have "id_is (Some (int (length ps + 1))) (newPatient body ps)"
    by (simp add: id_is_def)
  with fresh have "List.find (id_is (Some (int (length ps + 1)))) (ps @ [newPatient body ps])
      = Some (newPatient body ps)"
    by (simp add: find_snoc)
  then show ?thesis
    by (simp add: get_patient_def post_patients_def parseInt_toString)
qed

text \<open>
  The theorem at \<^verbatim>\<open>POST /patients {name: "Ann"}\<close> on the initial store, followed by
  \<^verbatim>\<open>GET /patients/3\<close>.
\<close>

theorem get_after_post_witness:
  "spread (Obj (literal [(''name'', Str ''Ann'')])) ''id'' = None
   \<and> \<not> id_is (Some 3) john \<and> \<not> id_is (Some 3) jane
   \<and> get_patient ''3'' (fst (post_patients (Obj (literal [(''name'', Str ''Ann'')])) patients))
       = Responded 200 (Obj (newPatient (Obj (literal [(''name'', Str ''Ann'')])) patients))
   \<and> newPatient (Obj (literal [(''name'', Str ''Ann'')])) patients ''name'' = Some (Str ''Ann'')"
proof -
  have a: "spread (Obj (literal [(''name'', Str ''Ann'')])) ''id'' = None"
    by (simp add: literal_def)
  have b: "\<forall>p\<in>set patients. \<not> id_is (Some (int (length patients + 1))) p"
    by (simp add: ev)
  have t: "toString (length patients + 1) = ''3''"
    by (simp add: patients_def toString.simps digit_char_def)
  have n: "newPatient (Obj (literal [(''name'', Str ''Ann'')])) patients ''name'' = Some (Str ''Ann'')"
    by (simp add: newPatient_def literal_def)
  have j: "\<not> id_is (Some 3) john \<and> \<not> id_is (Some 3) jane"
    by (simp add: ev)
  from get_after_post [OF a b] a j t n show ?thesis
    by simp
qed

text \<open>
  Claim C5 as stated fails: \<^verbatim>\<open>POST /patients {id: 1, name: "Ann"}\<close> on the initial store
  returns a record with identifier 1, and \<^verbatim>\<open>GET /patients/1\<close> then answers with the record
  of John Doe, the first one with that identifier.
\<close>

theorem get_after_post_counterexample:
  "newPatient (Obj (literal [(''id'', Num 1), (''name'', Str ''Ann'')])) patients ''id'' = Some (Num 1)
   \<and> get_patient (toString 1)
        (fst (post_patients (Obj (literal [(''id'', Num 1), (''name'', Str ''Ann'')])) patients))
       = Responded 200 (Obj john)
   \<and> john \<noteq> newPatient (Obj (literal [(''id'', Num 1), (''name'', Str ''Ann'')])) patients"
proof -
  let ?b = "Obj (literal [(''id'', Num 1), (''name'', Str ''Ann'')])"
  have a: "newPatient ?b patients ''id'' = Some (Num 1)"
    by (simp add: newPatient_def literal_def)
  have t: "toString 1 = ''1''" by (simp add: toString.simps digit_char_def)
  have g: "get_patient (toString 1) (fst (post_patients ?b patients)) = Responded 200 (Obj john)"
    unfolding t by (simp add: get_patient_def post_patients_def ev)
  have "john ''name'' \<noteq> newPatient ?b patients ''name''"
    by (simp add: newPatient_def john_def literal_def)
  then have "john \<noteq> newPatient ?b patients" by (rule contrapos_nn) simp
  with a g show ?thesis by simp
qed

subsection \<open>The initial store\<close>

text \<open>
  Claim C10. The store of a fresh process holds exactly the two records of John Doe
  (\<^verbatim>\<open>id: 1\<close>) and Jane Doe (\<^verbatim>\<open>id: 2\<close>); \<^verbatim>\<open>GET /patients\<close> answers with these two; and the
  first \<^verbatim>\<open>POST /patients\<close> builds its record from the identifier 3, which is the record's
  \<^verbatim>\<open>id\<close> unless the body brings its own.
\<close>

theorem initial_store:
  "patients =
     [literal [(''id'', Num 1), (''name'', Str ''John Doe''), (''age'', Num 30), (''diagnosis'', Str ''Fever'')],
      literal [(''id'', Num 2), (''name'', Str ''Jane Doe''), (''age'', Num 28), (''diagnosis'', Str ''Cough'')]]
   \<and> get_patients patients = Responded 200 (Arr
     [Obj (literal [(''id'', Num 1), (''name'', Str ''John Doe''), (''age'', Num 30), (''diagnosis'', Str ''Fever'')]),
      Obj (literal [(''id'', Num 2), (''name'', Str ''Jane Doe''), (''age'', Num 28), (''diagnosis'', Str ''Cough'')])])
   \<and> last (fst (post_patients body patients)) = literal [(''id'', Num 3)] ++ spread body
   \<and> (spread body ''id'' = None \<longrightarrow> last (fst (post_patients body patients)) ''id'' = Some (Num 3))"
  by (simp add: patients_def john_def jane_def get_patients_def post_patients_def newPatient_def
      literal_def map_add_def)

text \<open>
  The theorem at \<^verbatim>\<open>POST /patients {name: "Ann"}\<close> as the first request.
\<close>

theorem initial_store_witness:
  "spread (Obj (literal [(''name'', Str ''Ann'')])) ''id'' = None
   \<and> last (fst (post_patients (Obj (literal [(''name'', Str ''Ann'')])) patients)) ''id'' = Some (Num 3)
   \<and> length patients = 2"
proof -
  have h: "spread (Obj (literal [(''name'', Str ''Ann'')])) ''id'' = None"
    by (simp add: literal_def)
  have t: "last (fst (post_patients (Obj (literal [(''name'', Str ''Ann'')])) patients)) ''id'' = Some (Num 3)"
    using initial_store [of "Obj (literal [(''name'', Str ''Ann'')])"] h by blast
  have l: "length patients = 2" by (simp add: patients_def)
  show ?thesis by (intro conjI) (rule h, rule t, rule l)
qed

section \<open>The feature stubs\<close>

text \<open>
  A body whose \<^verbatim>\<open>note_type\<close> is none of the three known strings is answered with 400 and
  \<^verbatim>\<open>{error: "Invalid note type"}\<close>.
\<close>

lemma clinical_notes_invalid:
  "note_type_of body = Some t \<Longrightarrow> t \<noteq> Str ''soap'' \<Longrightarrow> t \<noteq> Str ''discharge'' \<Longrightarrow>
   t \<noteq> Str ''radiology'' \<Longrightarrow>
     clinical_notes body = Responded 400 (Obj (literal [(''error'', Str ''Invalid note type'')]))"
  by (simp add: clinical_notes_def)

text \<open>
  Claim C7, evaluated on the code. For each of the note types \<^verbatim>\<open>soap\<close>, \<^verbatim>\<open>discharge\<close> and
  \<^verbatim>\<open>radiology\<close>, \<^verbatim>\<open>POST /clinical-notes\<close> answers 200 with an object whose only key is
  \<^verbatim>\<open>note\<close>: it has neither \<^verbatim>\<open>success\<close> nor \<^verbatim>\<open>content\<close>, the keys that
  \<^verbatim>\<open>frontend/src/pages/ClinicalNotes.jsx\<close> reads. The note type \<^verbatim>\<open>unknown\<close> is answered with
  400 and \<^verbatim>\<open>{error: "Invalid note type"}\<close>.
\<close>

theorem clinical_notes_shape:
  "(\<exists>m. clinical_notes (Obj (literal [(''note_type'', Str ''soap'')])) = Responded 200 (Obj m)
        \<and> dom m = {''note''})
   \<and> (\<exists>m. clinical_notes (Obj (literal [(''note_type'', Str ''discharge'')])) = Responded 200 (Obj m)
        \<and> dom m = {''note''})
   \<and> (\<exists>m. clinical_notes (Obj (literal [(''note_type'', Str ''radiology'')])) = Responded 200 (Obj m)
        \<and> dom m = {''note''})
   \<and> clinical_notes (Obj (literal [(''note_type'', Str ''unknown'')]))
        = Responded 400 (Obj (literal [(''error'', Str ''Invalid note type'')]))"
  by (simp add: clinical_notes_def literal_def)

text \<open>
  Claim C8, evaluated on the code. For every request, \<^verbatim>\<open>POST /icd10-coding\<close> answers 200 with
  an object whose only key is \<^verbatim>\<open>codes\<close>, a list of two objects with the keys \<^verbatim>\<open>code\<close> and
  \<^verbatim>\<open>description\<close> only: there is no \<^verbatim>\<open>success\<close>, \<^verbatim>\<open>suggested_codes\<close> or
  \<^verbatim>\<open>total_suggestions\<close>, the keys that \<^verbatim>\<open>frontend/src/pages/ICD10Coding.jsx\<close> reads.
\<close>

theorem icd10_coding_shape:
  "\<exists>m c1 c2. icd10_coding body = Responded 200 (Obj m)
     \<and> dom m = {''codes''} \<and> m ''codes'' = Some (Arr [Obj c1, Obj c2])
     \<and> dom c1 = {''code'', ''description''} \<and> dom c2 = {''code'', ''description''}"
  by (auto simp: icd10_coding_def literal_def)

end
